theory Spec2Isabelle
  imports Main "HOL-Library.Word"
begin

section \<open>Machine integers\<close>

text \<open>
  Both source files instantiate their containers at the C++ type \<open>int\<close>
  (\<open>Vector<int>\<close> in \<open>examples/test_cpp.cpp\<close>, \<open>std::vector<int>\<close> in
  \<open>test_samples/sample.cpp\<close>). An \<open>int\<close> is a 32-bit two's-complement value:
  \<open>*\<close> on \<open>32 word\<close> wraps around, \<open>sint\<close> reads the signed value and \<open><s\<close> is
  the signed comparison. Where a product leaves the range of \<open>int\<close> the C++
  standard fixes no result; the model takes the low 32 bits, as the machine's
  multiplication does.
\<close>

type_synonym cint = "32 word"

section \<open>\<open>examples/test_cpp.cpp\<close>: the class \<open>Vector<int>\<close>\<close>

record Vector =
  data :: "cint list"

text \<open>
  Two classes of the repository call their member \<open>data\<close>; the fields are written
  \<open>Vector.data\<close> and \<open>DataProcessor.data\<close> throughout.
\<close>

text \<open>The constructor \<open>Vector() {}\<close>: the member vector starts empty.\<close>

definition Vector_ctor :: "Vector" where
  "Vector_ctor = \<lparr>Vector.data = []\<rparr>"

text \<open>
  The body of the range-for loop of \<open>push\<close>:
  \<^verbatim>\<open>if (elem > 0) { elem *= 2; }\<close>
\<close>

definition scale_elem :: "cint \<Rightarrow> cint" where
  "scale_elem elem = (if 0 <s elem then elem * 2 else elem)"

text \<open>The loop \<^verbatim>\<open>for (auto& elem : data)\<close>, front to back, updating in place.\<close>

primrec scale_pass :: "cint list \<Rightarrow> cint list" where
  "scale_pass [] = []"
| "scale_pass (elem # rest) = scale_elem elem # scale_pass rest"

text \<open>
  \<^verbatim>\<open>void push(const T& item) {
    data.push_back(item);
    if (data.size() > 10) { for (auto& elem : data) ... }
  }\<close>
\<close>

definition push :: "Vector \<Rightarrow> cint \<Rightarrow> Vector" where
  "push v item =
     (let v1 = v\<lparr>Vector.data := Vector.data v @ [item]\<rparr>
      in if length (Vector.data v1) > 10
         then v1\<lparr>Vector.data := scale_pass (Vector.data v1)\<rparr>
         else v1)"

text \<open>
  \<^verbatim>\<open>virtual int size() const { return data.size(); }\<close>
  The method is \<open>const\<close>: it reads the state and returns a value only. The
  \<open>size_t\<close> count is converted to the \<open>int\<close> return type, which keeps the low 32
  bits.
\<close>

definition size_Vector :: "Vector \<Rightarrow> cint" where
  "size_Vector v = word_of_nat (length (Vector.data v))"

text \<open>A caller's sequence of \<open>push\<close> calls on one container, first item first.\<close>

primrec push_all :: "Vector \<Rightarrow> cint list \<Rightarrow> Vector" where
  "push_all v [] = v"
| "push_all v (item # items) = push_all (push v item) items"

section \<open>\<open>test_samples/sample.cpp\<close>: \<open>DataProcessor\<close> and \<open>AdvancedProcessor\<close>\<close>

record DataProcessor =
  name :: string
  data :: "cint list"

text \<open>
  \<^verbatim>\<open>DataProcessor(const std::string& name) : name(name) {}\<close>
  The member \<open>data\<close> is default-constructed, hence empty.
\<close>

definition DataProcessor_ctor :: "string \<Rightarrow> DataProcessor" where
  "DataProcessor_ctor n = \<lparr>name = n, DataProcessor.data = []\<rparr>"

text \<open>
  \<^verbatim>\<open>static std::unique_ptr<DataProcessor> create_default() {
    return std::make_unique<DataProcessor>("default"); }\<close>
  The uniquely owned object is modelled by its value.
\<close>

definition create_default :: "DataProcessor" where
  "create_default = DataProcessor_ctor ''default''"

text \<open>\<^verbatim>\<open>inline void process_item(int item) { data.push_back(item * 2); }\<close>\<close>

definition process_item :: "DataProcessor \<Rightarrow> cint \<Rightarrow> DataProcessor" where
  "process_item p item = p\<lparr>DataProcessor.data := DataProcessor.data p @ [item * 2]\<rparr>"

text \<open>
  \<^verbatim>\<open>virtual void process_data(const std::vector<int>& items) {
    for (const auto& item : items) { process_item(item); } }\<close>
\<close>

primrec process_data :: "DataProcessor \<Rightarrow> cint list \<Rightarrow> DataProcessor" where
  "process_data p [] = p"
| "process_data p (item # rest) = process_data (process_item p item) rest"

text \<open>\<^verbatim>\<open>const std::vector<int>& get_data() const { return data; }\<close>\<close>

definition get_data :: "DataProcessor \<Rightarrow> cint list" where
  "get_data p = DataProcessor.data p"

text \<open>
  \<open>AdvancedProcessor\<close> derives from \<open>DataProcessor\<close> and adds no member, so an
  \<open>AdvancedProcessor\<close> object is its \<open>DataProcessor\<close> subobject.
  \<^verbatim>\<open>AdvancedProcessor() : DataProcessor("advanced") {}\<close>
\<close>

definition AdvancedProcessor_ctor :: "DataProcessor" where
  "AdvancedProcessor_ctor = DataProcessor_ctor ''advanced''"

text \<open>
  The override writes to \<open>std::cout\<close>, so its state is the object together with
  the characters written to the stream so far. The order of a write to the stream
  and an append to \<open>data\<close> cannot be read off these two fields, so the state also
  keeps the effects in the order in which the program performs them.
\<close>

datatype event = Cout_write string | Data_push_back cint

record io_state =
  cout :: string
  self :: DataProcessor
  events :: "event list"

text \<open>
  \<^verbatim>\<open>std::cout << "Advanced processing..." << std::endl;\<close>
  \<open>std::endl\<close> writes a newline character (and flushes).
\<close>

definition notify :: "io_state \<Rightarrow> io_state" where
  "notify s =
     s\<lparr>cout := cout s @ ''Advanced processing...'' @ [CHR 0x0A],
       events := events s @ [Cout_write (''Advanced processing...'' @ [CHR 0x0A])]\<rparr>"

text \<open>
  \<open>process_item\<close> and the loop of \<open>DataProcessor::process_data\<close> once more, on the
  state with the stream: the object changes as above, and each \<open>data.push_back\<close> is
  recorded with the value it appends.
\<close>

definition process_item_io :: "io_state \<Rightarrow> cint \<Rightarrow> io_state" where
  "process_item_io s item =
     s\<lparr>self := process_item (self s) item,
       events := events s @ [Data_push_back (item * 2)]\<rparr>"

primrec process_data_io :: "io_state \<Rightarrow> cint list \<Rightarrow> io_state" where
  "process_data_io s [] = s"
| "process_data_io s (item # rest) = process_data_io (process_item_io s item) rest"

text \<open>
  \<^verbatim>\<open>void process_data(const std::vector<int>& items) override {
    std::cout << "Advanced processing..." << std::endl;
    DataProcessor::process_data(items); }\<close>
\<close>

definition AdvancedProcessor_process_data :: "io_state \<Rightarrow> cint list \<Rightarrow> io_state" where
  "AdvancedProcessor_process_data s items =
     (let s1 = notify s in process_data_io s1 items)"

section \<open>Signed arithmetic of \<open>int\<close>\<close>

lemma sint_double:
  fixes e :: cint
  assumes "- (2 ^ 30) \<le> sint e" and "sint e < 2 ^ 30"
  shows "sint (e * 2) = 2 * sint e"
proof -
  have "sint (e * 2) = signed_take_bit 31 (sint e * 2)"
    by (simp add: sint_word_ariths)
  also have "\<dots> = sint e * 2"
    using assms by (intro signed_take_bit_int_eq_self) auto
  finally show ?thesis by simp
qed

lemma sint_word_of_nat:
  assumes "n < 2 ^ 31"
  shows "sint (word_of_nat n :: cint) = int n"
proof -
  have "sint (word_of_nat n :: cint) = signed_take_bit 31 (int n)"
    by (simp add: signed_of_nat)
  also have "\<dots> = int n"
    using assms by (intro signed_take_bit_int_eq_self) auto
  finally show ?thesis .
qed

section \<open>The threshold pass\<close>

lemma scale_pass_map: "scale_pass xs = map scale_elem xs"
  by (induction xs) simp_all

lemma funpow_scale_elem_nonpos: "\<not> 0 <s e \<Longrightarrow> (scale_elem ^^ n) e = e"
  by (induction n) (simp_all add: scale_elem_def)

lemma sint_scale_elem_pos:
  "0 < sint e \<Longrightarrow> sint e < 2 ^ 30 \<Longrightarrow> sint (scale_elem e) = 2 * sint e"
  using sint_double [of e] by (simp add: scale_elem_def word_sless_alt)

lemma sint_funpow_scale_elem:
  "0 < sint e \<Longrightarrow> sint e * 2 ^ n < 2 ^ 31 \<Longrightarrow>
   sint ((scale_elem ^^ n) e) = sint e * 2 ^ n"
proof (induction n)
  case 0
  then show ?case by simp
next
  case (Suc n)
  have lt: "sint e * 2 ^ n < 2 ^ 30" using Suc.prems by simp
  then have ih: "sint ((scale_elem ^^ n) e) = sint e * 2 ^ n"
    using Suc by simp
  have pos: "0 < sint e * 2 ^ n" using Suc.prems(1) by simp
  show ?case
    using sint_scale_elem_pos [of "(scale_elem ^^ n) e"] ih lt pos by simp
qed

section \<open>One push, and a sequence of pushes\<close>

lemma data_push:
  "Vector.data (push v item) =
     (if 10 \<le> length (Vector.data v) then map scale_elem (Vector.data v @ [item])
      else Vector.data v @ [item])"
  by (simp add: push_def Let_def scale_pass_map)

lemma length_data_push: "length (Vector.data (push v item)) = Suc (length (Vector.data v))"
  by (simp add: data_push)

lemma length_data_push_all:
  "length (Vector.data (push_all v items)) = length (Vector.data v) + length items"
  by (induction items arbitrary: v) (simp_all add: length_data_push)

lemma push_all_append: "push_all v (xs @ ys) = push_all (push_all v xs) ys"
  by (induction xs arbitrary: v) simp_all

lemma nth_data_push:
  "i \<le> length (Vector.data v) \<Longrightarrow>
   Vector.data (push v item) ! i =
     (if 10 \<le> length (Vector.data v) then scale_elem ((Vector.data v @ [item]) ! i)
      else (Vector.data v @ [item]) ! i)"
  by (simp add: data_push del: map_append)

text \<open>
  The element at index \<open>i\<close> is visited by the pass of every push that leaves the
  container longer than 10 and at which the element is already stored. With \<open>m\<close>
  elements before and \<open>k\<close> pushes, that is \<open>m + k - max m (max i 10)\<close> passes.
\<close>

lemma nth_data_push_all:
  "i < length (Vector.data v) + length items \<Longrightarrow>
   Vector.data (push_all v items) ! i =
     (scale_elem ^^ (length (Vector.data v) + length items
                       - max (length (Vector.data v)) (max i 10)))
       ((Vector.data v @ items) ! i)"
proof (induction items rule: rev_induct)
  case Nil
  then show ?case by simp
next
  case (snoc x xs)
  define m where "m = length (Vector.data v)"
  define k where "k = length xs"
  define D where "D = Vector.data (push_all v xs)"
  define M where "M = max m (max i 10)"
  have len: "length D = m + k"
    by (simp add: D_def m_def k_def length_data_push_all)
  have i_le: "i \<le> m + k"
    using snoc.prems by (simp add: m_def k_def)
  have step: "Vector.data (push_all v (xs @ [x])) ! i =
      (if 10 \<le> m + k then scale_elem ((D @ [x]) ! i) else (D @ [x]) ! i)"
    using nth_data_push [of i "push_all v xs" x] i_le len
    by (simp add: push_all_append D_def)
  show ?case
  proof (cases "i < m + k")
    case True
    have ih: "D ! i = (scale_elem ^^ (m + k - M)) ((Vector.data v @ xs) ! i)"
      using snoc.IH True by (simp add: D_def m_def k_def M_def)
    have e: "(Vector.data v @ xs @ [x]) ! i = (Vector.data v @ xs) ! i"
      using True by (metis append_assoc length_append nth_append m_def k_def)
    have d: "(D @ [x]) ! i = D ! i"
      using True len by (simp add: nth_append)
    have c: "m + Suc k - M = (if 10 \<le> m + k then Suc (m + k - M) else 0)"
      using True by (auto simp: M_def)
    have c0: "\<not> 10 \<le> m + k \<Longrightarrow> m + k - M = 0"
      by (auto simp: M_def)
    have "Vector.data (push_all v (xs @ [x])) ! i =
        (scale_elem ^^ (m + Suc k - M)) ((Vector.data v @ xs) ! i)"
      unfolding step d ih c using c0 by simp
    then show ?thesis
      using e by (simp add: m_def k_def M_def)
  next
    case False
    then have i: "i = m + k"
      using i_le by simp
    have e: "(Vector.data v @ xs @ [x]) ! i = x"
      using i by (metis append_assoc length_append nth_append_length m_def k_def)
    have d: "(D @ [x]) ! i = x"
      using i len by (simp add: nth_append)
    have c: "m + Suc k - M = (if 10 \<le> m + k then Suc 0 else 0)"
      using i by (auto simp: M_def)
    have "Vector.data (push_all v (xs @ [x])) ! i = (scale_elem ^^ (m + Suc k - M)) x"
      unfolding step d c by simp
    then show ?thesis
      using e by (simp add: m_def k_def M_def)
  qed
qed

lemma data_push_all_below_threshold:
  "length (Vector.data v) + length items \<le> 10 \<Longrightarrow>
   Vector.data (push_all v items) = Vector.data v @ items"
  by (induction items arbitrary: v) (simp_all add: data_push)

section \<open>The processing loop\<close>

lemma process_data_eq:
  "process_data p items =
     p\<lparr>DataProcessor.data := DataProcessor.data p @ map (\<lambda>item. item * 2) items\<rparr>"
  by (induction items arbitrary: p) (simp_all add: process_item_def)

lemma process_data_io_eq:
  "process_data_io s items =
     s\<lparr>self := process_data (self s) items,
       events := events s @ map (\<lambda>item. Data_push_back (item * 2)) items\<rparr>"
  by (induction items arbitrary: s) (simp_all add: process_item_io_def)

lemma sint_process_item:
  "- (2 ^ 30) \<le> sint item \<Longrightarrow> sint item < 2 ^ 30 \<Longrightarrow>
   sint (last (DataProcessor.data (process_item p item))) = 2 * sint item"
  by (simp add: process_item_def sint_double)

section \<open>Forty-one pushes of the value 1\<close>

lemma funpow_scale_elem_30: "(scale_elem ^^ 30) 1 = 0x40000000"
  by (simp add: eval_nat_numeral scale_elem_def word_sless_alt)

lemma funpow_scale_elem_31: "(scale_elem ^^ 31) 1 = 0x80000000"
  by (simp add: eval_nat_numeral scale_elem_def word_sless_alt)

lemma nth_data_push_all_ones:
  "0 < n \<Longrightarrow>
   Vector.data (push_all Vector_ctor (replicate n 1)) ! 0 = (scale_elem ^^ (n - 10)) 1"
  using nth_data_push_all [of 0 Vector_ctor "replicate n 1"]
  by (simp add: Vector_ctor_def)

lemma data_forty_ones:
  "Vector.data (push_all Vector_ctor (replicate 40 1)) ! 0 = 0x40000000"
  using nth_data_push_all_ones [of 40] by (simp add: funpow_scale_elem_30)

lemma data_forty_one_ones:
  "Vector.data (push_all Vector_ctor (replicate 41 1)) ! 0 = 0x80000000"
  using nth_data_push_all_ones [of 41] by (simp add: funpow_scale_elem_31)

lemma push_forty_first:
  "push (push_all Vector_ctor (replicate 40 1)) 1 = push_all Vector_ctor (replicate 41 1)"
proof -
  have "replicate 41 (1::cint) = replicate 40 1 @ [1]"
    using replicate_add [of 40 1 "1::cint"] by simp
  then show ?thesis
    by (simp only: push_all_append push_all.simps)
qed

section \<open>The claims about \<open>Vector\<close>\<close>

lemma data_eleven_ones:
  "Vector.data (push_all Vector_ctor (replicate 11 1)) = replicate 11 2"
  by code_simp

text \<open>
  C1 (as the code has it). Starting from an empty container, after pushing the value 1
  eleven times every element equals 2. A twelfth push of a positive value \<open>item\<close>
  runs a second full pass: there are twelve elements, each of the first eleven equals
  4, and the twelfth element, which has been through one pass only, has twice the value
  of \<open>item\<close> whenever \<open>item\<close> is below \<open>2 ^ 30\<close>, so that twice its value is still an
  \<open>int\<close>.
\<close>

theorem C1_threshold_scenario:
  "Vector.data (push_all Vector_ctor (replicate 11 1)) = replicate 11 2 \<and>
   (0 < sint item \<longrightarrow>
      length (Vector.data (push (push_all Vector_ctor (replicate 11 1)) item)) = 12 \<and>
      take 11 (Vector.data (push (push_all Vector_ctor (replicate 11 1)) item))
        = replicate 11 4) \<and>
   (0 < sint item \<and> sint item < 2 ^ 30 \<longrightarrow>
      sint (Vector.data (push (push_all Vector_ctor (replicate 11 1)) item) ! 11)
        = 2 * sint item)"
proof -
  have b: "scale_elem 2 = 4"
    by (simp add: scale_elem_def word_sless_alt)
  have d: "Vector.data (push (push_all Vector_ctor (replicate 11 1)) item)
        = replicate 11 4 @ [scale_elem item]"
    by (simp add: data_push data_eleven_ones b)
  have l: "length (replicate 11 (4::cint)) = 11"
    by simp
  have t: "take 11 (Vector.data (push (push_all Vector_ctor (replicate 11 1)) item))
        = replicate 11 4"
    unfolding d using l by (simp del: replicate.simps)
  have n: "Vector.data (push (push_all Vector_ctor (replicate 11 1)) item) ! 11
        = scale_elem item"
    unfolding d using nth_append_length [of "replicate 11 (4::cint)" "scale_elem item" "[]"] l
    by (simp del: replicate.simps)
  have s: "sint (scale_elem item) = 2 * sint item" if "0 < sint item" "sint item < 2 ^ 30"
    using that by (rule sint_scale_elem_pos)
  show ?thesis
    using data_eleven_ones t n s by (simp add: d)
qed

theorem C1_threshold_scenario_witness:
  "0 < sint (1::cint) \<and> sint (1::cint) < 2 ^ 30 \<and>
   length (Vector.data (push (push_all Vector_ctor (replicate 11 1)) 1)) = 12 \<and>
   take 11 (Vector.data (push (push_all Vector_ctor (replicate 11 1)) 1)) = replicate 11 4 \<and>
   sint (Vector.data (push (push_all Vector_ctor (replicate 11 1)) 1) ! 11) = 2"
  using C1_threshold_scenario [of 1] by simp

text \<open>
  C1 as stated fails on the canonical scenario itself: when the twelfth value pushed is
  again 1, the twelfth element is 2 after the second pass, so not every element is 4.
\<close>

theorem C1_twelfth_element_counterexample:
  "0 <s (1::cint) \<and>
   Vector.data (push (push_all Vector_ctor (replicate 11 1)) 1) ! 11 = 2 \<and>
   Vector.data (push (push_all Vector_ctor (replicate 11 1)) 1) \<noteq> replicate 12 4"
  by code_simp

text \<open>
  C3 (as the code has it). Once the container is longer than 10, every further push
  runs the full pass again over the old elements and the new one. A strictly positive
  element \<open>e\<close> is doubled by each of these passes: after \<open>k\<close> further pushes its value
  is \<open>e * 2 ^ k\<close>, strictly more than before, as long as \<open>e * 2 ^ k\<close> is below \<open>2 ^ 31\<close>
  and so still an \<open>int\<close>.
\<close>

theorem C3_compounding_within_int_range:
  assumes "10 < length (Vector.data v)"
    and "i < length (Vector.data v)"
    and "0 < sint (Vector.data v ! i)"
    and "sint (Vector.data v ! i) * 2 ^ length items < 2 ^ 31"
  shows "Vector.data (push v item) = scale_pass (Vector.data v @ [item]) \<and>
         sint (Vector.data (push_all v items) ! i)
           = sint (Vector.data v ! i) * 2 ^ length items \<and>
         (items \<noteq> [] \<longrightarrow>
            sint (Vector.data v ! i) < sint (Vector.data (push_all v items) ! i))"
proof -
  let ?e = "Vector.data v ! i"
  have p: "Vector.data (push v item) = scale_pass (Vector.data v @ [item])"
    using assms(1) by (simp add: data_push scale_pass_map)
  have n: "length (Vector.data v) + length items - max (length (Vector.data v)) (max i 10)
             = length items"
    using assms(1,2) by simp
  have "Vector.data (push_all v items) ! i = (scale_elem ^^ length items) ?e"
    using nth_data_push_all [of i v items] assms(2) n by (simp add: nth_append)
  then have v: "sint (Vector.data (push_all v items) ! i) = sint ?e * 2 ^ length items"
    using sint_funpow_scale_elem [OF assms(3,4)] by simp
  have "sint ?e < sint ?e * 2 ^ length items" if "items \<noteq> []"
  proof -
    have "length items > 0"
      using that by simp
    then have "(1::int) < 2 ^ length items"
      by simp
    then show ?thesis
      using assms(3) by simp
  qed
  with p v show ?thesis by simp
qed

theorem C3_compounding_within_int_range_witness:
  "10 < length (Vector.data \<lparr>Vector.data = replicate 11 3\<rparr>) \<and>
   0 < length (Vector.data \<lparr>Vector.data = replicate 11 3\<rparr>) \<and>
   0 < sint (Vector.data \<lparr>Vector.data = replicate 11 3\<rparr> ! 0) \<and>
   sint (Vector.data \<lparr>Vector.data = replicate 11 3\<rparr> ! 0) * 2 ^ length [7, - 1 :: cint]
     < 2 ^ 31 \<and>
   [7, - 1 :: cint] \<noteq> [] \<and>
   sint (Vector.data (push_all \<lparr>Vector.data = replicate 11 3\<rparr> [7, - 1]) ! 0) = 12"
  using C3_compounding_within_int_range [of "\<lparr>Vector.data = replicate 11 3\<rparr>" 0 "[7, - 1]"]
  by simp

text \<open>
  C3 as stated fails: the growth stops at the range of \<open>int\<close>. After forty pushes of 1
  the first element is \<open>2 ^ 30\<close>, still positive; the pass of the forty-first push
  doubles it out of the range, and its value does not increase.
\<close>

theorem C3_unbounded_growth_counterexample:
  "10 < length (Vector.data (push_all Vector_ctor (replicate 40 1))) \<and>
   sint (Vector.data (push_all Vector_ctor (replicate 40 1)) ! 0) = 1073741824 \<and>
   0 <s Vector.data (push_all Vector_ctor (replicate 40 1)) ! 0 \<and>
   sint (Vector.data (push (push_all Vector_ctor (replicate 40 1)) 1) ! 0) = - 2147483648 \<and>
   \<not> Vector.data (push_all Vector_ctor (replicate 40 1)) ! 0
       <s Vector.data (push (push_all Vector_ctor (replicate 40 1)) 1) ! 0"
  unfolding push_forty_first data_forty_ones data_forty_one_ones
  by (simp add: length_data_push_all Vector_ctor_def word_sless_alt)

text \<open>
  C4. For every sequence of at most 10 pushes on a container created empty, \<open>size()\<close>
  equals the number of pushes and the stored elements are exactly the pushed values,
  in push order.
\<close>

theorem C4_below_threshold:
  "length items \<le> 10 \<Longrightarrow>
   sint (size_Vector (push_all Vector_ctor items)) = int (length items) \<and>
   Vector.data (push_all Vector_ctor items) = items"
proof -
  assume le: "length items \<le> 10"
  have d: "Vector.data (push_all Vector_ctor items) = items"
    using data_push_all_below_threshold [of Vector_ctor items] le
    by (simp add: Vector_ctor_def)
  have "length items < 2 ^ 31"
    using le by simp
  then have "sint (size_Vector (push_all Vector_ctor items)) = int (length items)"
    by (simp add: size_Vector_def d sint_word_of_nat)
  with d show ?thesis by simp
qed

theorem C4_below_threshold_witness:
  "length [5, - 3, 0 :: cint] \<le> 10 \<and>
   sint (size_Vector (push_all Vector_ctor [5, - 3, 0])) = 3 \<and>
   Vector.data (push_all Vector_ctor [5, - 3, 0]) = [5, - 3, 0]"
  using C4_below_threshold [of "[5, - 3, 0]"] by simp

text \<open>
  C5. Whatever the container holds and whatever is pushed next, an element whose value
  is at most zero (stored already, or pushed in the sequence) still has that value
  after all the pushes: no pass changes it.
\<close>

theorem C5_nonpositive_untouched:
  "i < length (Vector.data v) + length items \<Longrightarrow>
   (Vector.data v @ items) ! i \<le>s 0 \<Longrightarrow>
   Vector.data (push_all v items) ! i = (Vector.data v @ items) ! i"
  by (simp add: nth_data_push_all funpow_scale_elem_nonpos signed.not_less)

theorem C5_nonpositive_untouched_witness:
  "(0::nat) < length (Vector.data Vector_ctor) + length ([- 5, 0] @ replicate 12 (3::cint)) \<and>
   (Vector.data Vector_ctor @ [- 5, 0] @ replicate 12 3) ! 0 \<le>s 0 \<and>
   Vector.data (push_all Vector_ctor ([- 5, 0] @ replicate 12 3)) ! 0 = - 5"
  using C5_nonpositive_untouched [of 0 Vector_ctor "[- 5, 0] @ replicate 12 3"]
  by (simp add: Vector_ctor_def word_sle_eq)

text \<open>
  C8 (as the code has it). After any sequence of \<open>n\<close> pushes on a container created
  empty the container holds exactly \<open>n\<close> elements, and the element at index \<open>i\<close> is
  the \<open>i\<close>-th pushed value after the \<open>n - max i 10\<close> passes it has been through: the
  pass changes values, never the count or the order. \<open>size()\<close> only reads the state, and
  it returns exactly \<open>n\<close> whenever \<open>n\<close> is below \<open>2 ^ 31\<close>, that is, within its \<open>int\<close>
  return type.
\<close>

theorem C8_size_counts_pushes:
  "length (Vector.data (push_all Vector_ctor items)) = length items \<and>
   (length items < 2 ^ 31 \<longrightarrow>
      sint (size_Vector (push_all Vector_ctor items)) = int (length items)) \<and>
   Vector.data (push_all Vector_ctor items) =
      map (\<lambda>i. (scale_elem ^^ (length items - max i 10)) (items ! i)) [0..<length items]"
proof -
  have l: "length (Vector.data (push_all Vector_ctor items)) = length items"
    by (simp add: length_data_push_all Vector_ctor_def)
  have s: "sint (size_Vector (push_all Vector_ctor items)) = int (length items)"
    if "length items < 2 ^ 31"
    using that by (simp add: size_Vector_def l sint_word_of_nat)
  have d: "Vector.data (push_all Vector_ctor items) =
      map (\<lambda>i. (scale_elem ^^ (length items - max i 10)) (items ! i)) [0..<length items]"
  proof (rule nth_equalityI)
    show "length (Vector.data (push_all Vector_ctor items)) =
      length (map (\<lambda>i. (scale_elem ^^ (length items - max i 10)) (items ! i))
                [0..<length items])"
      using l by simp
  next
    fix i
    assume "i < length (Vector.data (push_all Vector_ctor items))"
    then have i: "i < length items"
      using l by simp
    then show "Vector.data (push_all Vector_ctor items) ! i =
       map (\<lambda>i. (scale_elem ^^ (length items - max i 10)) (items ! i)) [0..<length items] ! i"
      using nth_data_push_all [of i Vector_ctor items]
      by (simp add: Vector_ctor_def)
  qed
  from l s d show ?thesis by blast
qed

theorem C8_size_counts_pushes_witness:
  "length (replicate 12 (1::cint)) < 2 ^ 31 \<and>
   sint (size_Vector (push_all Vector_ctor (replicate 12 1))) = 12"
  using C8_size_counts_pushes [of "replicate 12 1"] by simp

text \<open>
  C8 as stated fails where the count leaves the range of the \<open>int\<close> that \<open>size()\<close>
  returns: after \<open>2 ^ 31\<close> pushes the conversion of the count yields \<open>- 2 ^ 31\<close>.
\<close>

theorem C8_size_narrowing_counterexample:
  "sint (size_Vector (push_all Vector_ctor (replicate (2 ^ 31) 0))) = - (2 ^ 31) \<and>
   sint (size_Vector (push_all Vector_ctor (replicate (2 ^ 31) 0)))
     \<noteq> int (length (replicate (2 ^ 31) (0::cint)))"
  by (simp add: size_Vector_def length_data_push_all Vector_ctor_def)

section \<open>The claims about \<open>DataProcessor\<close> and \<open>AdvancedProcessor\<close>\<close>

text \<open>
  C2 (as the code has it). For every batch, \<open>process_data\<close> of the base class appends
  exactly one result per item, in input order, behind the results stored before. The
  result for an item from \<open>- 2 ^ 30\<close> up to \<open>2 ^ 30 - 1\<close>, whose double is still an
  \<open>int\<close>, is twice the item. The batch 1, 2, 3, 4, 5 on the default instance leaves
  the results 2, 4, 6, 8, 10, as many as the items.
\<close>

theorem C2_process_data_doubles:
  "length (DataProcessor.data (process_data p items)) =
     length (DataProcessor.data p) + length items \<and>
   take (length (DataProcessor.data p)) (DataProcessor.data (process_data p items)) =
     DataProcessor.data p \<and>
   (i < length items \<and> - (2 ^ 30) \<le> sint (items ! i) \<and> sint (items ! i) < 2 ^ 30 \<longrightarrow>
      sint (DataProcessor.data (process_data p items) ! (length (DataProcessor.data p) + i))
        = 2 * sint (items ! i)) \<and>
   get_data (process_data create_default [1, 2, 3, 4, 5]) = [2, 4, 6, 8, 10] \<and>
   length (get_data (process_data create_default [1, 2, 3, 4, 5]))
     = length [1, 2, 3, 4, 5 :: cint]"
proof -
  have "sint (DataProcessor.data (process_data p items) ! (length (DataProcessor.data p) + i))
        = 2 * sint (items ! i)"
    if "i < length items" "- (2 ^ 30) \<le> sint (items ! i)" "sint (items ! i) < 2 ^ 30"
    using that by (simp add: process_data_eq sint_double)
  then show ?thesis
    by (simp add: process_data_eq get_data_def create_default_def DataProcessor_ctor_def)
qed

theorem C2_process_data_doubles_witness:
  "2 < length [1, 2, 3, 4, 5 :: cint] \<and>
   - (2 ^ 30) \<le> sint ([1, 2, 3, 4, 5 :: cint] ! 2) \<and>
   sint ([1, 2, 3, 4, 5 :: cint] ! 2) < 2 ^ 30 \<and>
   sint (DataProcessor.data (process_data create_default [1, 2, 3, 4, 5])
           ! (length (DataProcessor.data create_default) + 2)) = 6"
  using C2_process_data_doubles [of create_default "[1, 2, 3, 4, 5]" 2] by simp

text \<open>
  C2 as stated fails for an item whose double is not an \<open>int\<close>: for the batch holding
  \<open>2 ^ 30\<close> alone the stored result is \<open>- 2 ^ 31\<close>, not twice the item.
\<close>

theorem C2_twice_the_item_counterexample:
  "sint (get_data (process_data create_default [0x40000000]) ! 0) = - 2147483648 \<and>
   sint (get_data (process_data create_default [0x40000000]) ! 0)
     \<noteq> 2 * sint (0x40000000 :: cint)"
  by (simp add: get_data_def create_default_def DataProcessor_ctor_def process_item_def)

text \<open>
  C6. For every batch, the override of \<open>AdvancedProcessor\<close> leaves the object exactly as
  the base \<open>process_data\<close> does on the same batch, and the stream longer by exactly one
  copy of the fixed message. In the order of effects the override adds one write of
  that message, and it stands before every \<open>push_back\<close> of the call; these are the
  appends the base loop performs on the same batch, one per item. On the batch
  1, 2, 3, 4, 5 the results are those of the base class, 2, 4, 6, 8, 10.
\<close>

theorem C6_advanced_delegates:
  "self (AdvancedProcessor_process_data s items) = process_data (self s) items \<and>
   cout (AdvancedProcessor_process_data s items) =
     cout s @ ''Advanced processing...'' @ [CHR 0x0A] \<and>
   events (AdvancedProcessor_process_data s items) =
     events s @ Cout_write (''Advanced processing...'' @ [CHR 0x0A])
              # map (\<lambda>item. Data_push_back (item * 2)) items \<and>
   self (process_data_io s items) = process_data (self s) items \<and>
   cout (process_data_io s items) = cout s \<and>
   events (process_data_io s items) =
     events s @ map (\<lambda>item. Data_push_back (item * 2)) items \<and>
   get_data (self (AdvancedProcessor_process_data
       \<lparr>cout = [], self = AdvancedProcessor_ctor, events = []\<rparr> [1, 2, 3, 4, 5])) =
     get_data (process_data create_default [1, 2, 3, 4, 5]) \<and>
   get_data (self (AdvancedProcessor_process_data
       \<lparr>cout = [], self = AdvancedProcessor_ctor, events = []\<rparr> [1, 2, 3, 4, 5])) =
     [2, 4, 6, 8, 10]"
  by (simp add: AdvancedProcessor_process_data_def notify_def Let_def process_data_io_eq
      process_data_eq get_data_def create_default_def AdvancedProcessor_ctor_def
      DataProcessor_ctor_def)

text \<open>
  C7. \<open>process_item\<close> and \<open>process_data\<close>, of the base class and of the derived class,
  leave the name as it was and the results stored before in place, and append the new
  results at the end; on an empty batch \<open>process_data\<close> leaves the object, hence its
  results, unchanged.
\<close>

theorem C7_processing_frame:
  "name (process_item p item) = name p \<and>
   DataProcessor.data (process_item p item) = DataProcessor.data p @ [item * 2] \<and>
   name (process_data p items) = name p \<and>
   DataProcessor.data (process_data p items) =
     DataProcessor.data p @ map (\<lambda>item. item * 2) items \<and>
   take (length (DataProcessor.data p)) (DataProcessor.data (process_data p items)) =
     DataProcessor.data p \<and>
   name (self (AdvancedProcessor_process_data s items)) = name (self s) \<and>
   DataProcessor.data (self (AdvancedProcessor_process_data s items)) =
     DataProcessor.data (self s) @ map (\<lambda>item. item * 2) items \<and>
   process_data p [] = p \<and>
   self (AdvancedProcessor_process_data s []) = self s"
  by (simp add: AdvancedProcessor_process_data_def notify_def Let_def process_data_io_eq
      process_data_eq process_item_def)

text \<open>
  C9. \<open>create_default\<close> yields an object named "default" with no results; the
  constructor of \<open>AdvancedProcessor\<close> yields an object named "advanced" with no results.
\<close>

theorem C9_construction:
  "name create_default = ''default'' \<and>
   get_data create_default = [] \<and>
   name AdvancedProcessor_ctor = ''advanced'' \<and>
   get_data AdvancedProcessor_ctor = []"
  by (simp add: create_default_def AdvancedProcessor_ctor_def DataProcessor_ctor_def
      get_data_def)

text \<open>
  C10. For every object and every two batches \<open>a\<close> and \<open>b\<close>, \<open>process_data\<close> on \<open>a\<close>
  and then on \<open>b\<close> leaves the object, and so its results, as one call on \<open>a @ b\<close> does.
\<close>

theorem C10_process_data_append:
  "process_data (process_data p a) b = process_data p (a @ b) \<and>
   get_data (process_data (process_data p a) b) = get_data (process_data p (a @ b))"
proof -
  have "process_data (process_data p a) b = process_data p (a @ b)"
    by (induction a arbitrary: p) simp_all
  then show ?thesis by simp
qed

end
